theory Spec2Isabelle
  imports Complex_Main
begin

section \<open>Data model\<close>

text \<open>
  The generator of \<^verbatim>\<open>accompaniment_rnn_generator.py\<close> works on NoteSequence protocol
  buffers, on a GeneratorOptions message and on Melody objects. Only the fields that
  \<^verbatim>\<open>_generate\<close> reads or writes are kept. A Python float is the real number it
  denotes (infinities and NaN are left out) and the arithmetic on floats rounds to the
  nearest double; Python ints are \<open>int\<close>.
\<close>

record note_msg =
  instrument :: int
  pitch :: int
  start_time :: real
  end_time :: real

record tempo =
  qpm :: real

text \<open>
  A NoteSequence: \<^verbatim>\<open>notes\<close> (here \<open>seq_notes\<close>) and \<^verbatim>\<open>tempos\<close>.
\<close>

record note_sequence =
  seq_notes :: "note_msg list"
  tempos :: "tempo list"

text \<open>A section of the options: \<^verbatim>\<open>input_sections\<close> and \<^verbatim>\<open>generate_sections\<close> hold these.\<close>

record section_msg =
  section_start_time :: real
  section_end_time :: real

text \<open>
  \<^verbatim>\<open>generator_options.args\<close> is a dict from names to argument messages; the only
  field read is \<^verbatim>\<open>float_value\<close>, so the map goes from the name to that value.
\<close>

record generator_options =
  input_sections :: "section_msg list"
  generate_sections :: "section_msg list"
  args :: "string \<rightharpoonup> real"

text \<open>\<^verbatim>\<open>magenta.music.Melody(events, start_step=...)\<close>: one event per step.\<close>

datatype melody = Melody (events: "int list") (start_step: int)

section \<open>Errors and observable calls\<close>

text \<open>
  Each \<^verbatim>\<open>raise magenta.music.SequenceGeneratorException(...)\<close> of \<^verbatim>\<open>_generate\<close> formats
  a message from offending values; the reason keeps the raise site and those values, in the
  order of the format arguments.
\<close>

datatype reason =
    InputSectionsCount nat
  | GenerateSectionsCount nat
  | BeforeAccompanimentEnd real real
  | BeforePredictahead int int
  | MelodiesCount nat

datatype error =
    SequenceGeneratorException reason
  | AssertionError
  | ModelError string

text \<open>The calls \<^verbatim>\<open>_generate\<close> makes on its collaborators, in the order they happen.\<close>

datatype event =
    ExtractSubsequence real real
  | FromNoteSequence int
  | ExtractMelodies
  | LoggingWarn
  | RandomRandint int int
  | SetLength melody int
  | GenerateMelodyPair int melody melody real
  | ToSequence melody int real

section \<open>Collaborators\<close>

text \<open>
  The music library (\<^verbatim>\<open>magenta.music\<close>), the model (\<^verbatim>\<open>self._model\<close>) and Python's
  \<^verbatim>\<open>random\<close> are not part of the file; they are parameters of the embedding. The type
  \<open>'q\<close> is the quantized sequence. \<^verbatim>\<open>extract_melodies\<close> is the call with the fixed
  keyword arguments of the source (\<^verbatim>\<open>min_bars=0, min_unique_pitches=1,
  gap_bars=float('inf'), ignore_polyphonic_notes=True\<close>) and returns the first component
  of its result. The model call may raise; the library calls are taken as total.
\<close>

record 'q environment =
  extract_subsequence :: "note_sequence \<Rightarrow> real \<Rightarrow> real \<Rightarrow> note_sequence"
  from_note_sequence :: "note_sequence \<Rightarrow> int \<Rightarrow> 'q"
  extract_melodies :: "'q \<Rightarrow> melody list"
  set_length :: "melody \<Rightarrow> int \<Rightarrow> melody"
  to_sequence :: "melody \<Rightarrow> int \<Rightarrow> real \<Rightarrow> note_sequence"
  MELODY_NO_EVENT :: int
  DEFAULT_QUARTERS_PER_MINUTE :: real
  randint :: "int \<Rightarrow> int \<Rightarrow> int"
  predictahead_steps :: int
  generate_melody_pair :: "int \<Rightarrow> melody \<times> melody \<Rightarrow> real \<Rightarrow> string + melody \<times> melody"

section \<open>Double precision arithmetic\<close>

text \<open>
  Python floats are IEEE 754 binary64 numbers: 53 significant bits, exponents from -1022
  to 1023, results rounded to the nearest double with ties to the even significand.
  \<open>pow2 e\<close> is \<open>2\<close> to the power \<open>e\<close>.
\<close>

definition pow2 :: "int \<Rightarrow> real" where
  "pow2 e = (if 0 \<le> e then 2 ^ nat e else 1 / 2 ^ nat (- e))"

text \<open>
  The binary exponent of a positive number \<open>x\<close>: the \<open>e\<close> with
  \<open>pow2 e \<le> x < pow2 (e + 1)\<close>, searched upwards from 0 when \<open>1 \<le> x\<close> and downwards
  otherwise. It stops at -1022, below which doubles are subnormal and keep that exponent,
  and at 1024, which no double has.
\<close>

function exponent_up :: "int \<Rightarrow> real \<Rightarrow> int" where
  "exponent_up e x = (if e < 1024 \<and> pow2 (e + 1) \<le> x then exponent_up (e + 1) x else e)"
  by pat_completeness auto
termination
  by (relation "measure (\<lambda>(e, x). nat (1024 - e))") auto

function exponent_down :: "int \<Rightarrow> real \<Rightarrow> int" where
  "exponent_down e x = (if - 1022 < e \<and> x < pow2 e then exponent_down (e - 1) x else e)"
  by pat_completeness auto
termination
  by (relation "measure (\<lambda>(e, x). nat (e + 1022))") auto

declare exponent_up.simps [simp del] exponent_down.simps [simp del]

definition double_exponent :: "real \<Rightarrow> int" where
  "double_exponent x =
     (if 1 \<le> \<bar>x\<bar> then exponent_up 0 \<bar>x\<bar> else exponent_down 0 \<bar>x\<bar>)"

text \<open>The nearest integer, a tie going to the even one.\<close>

definition round_half_even :: "real \<Rightarrow> int" where
  "round_half_even m =
     (if m - of_int \<lfloor>m\<rfloor> < 1 / 2 then \<lfloor>m\<rfloor>
      else if 1 / 2 < m - of_int \<lfloor>m\<rfloor> then \<lfloor>m\<rfloor> + 1
      else if even \<lfloor>m\<rfloor> then \<lfloor>m\<rfloor> else \<lfloor>m\<rfloor> + 1)"

text \<open>
  The double nearest to a real: a multiple of \<open>pow2 (e - 52)\<close> for the exponent \<open>e\<close> of
  the number. A result of \<open>pow2 1024\<close> or more stands for an infinity.
\<close>

definition round_double :: "real \<Rightarrow> real" where
  "round_double x =
     (if x = 0 then 0
      else sgn x * of_int (round_half_even (\<bar>x\<bar> / pow2 (double_exponent x - 52))) *
           pow2 (double_exponent x - 52))"

definition finite_double :: "real \<Rightarrow> bool" where
  "finite_double x \<longleftrightarrow> \<bar>x\<bar> < pow2 1024"

text \<open>The float operations \<^verbatim>\<open>a * b\<close> and \<^verbatim>\<open>a / b\<close>.\<close>

definition fmul :: "real \<Rightarrow> real \<Rightarrow> real" where
  "fmul a b = round_double (a * b)"

definition fdiv :: "real \<Rightarrow> real \<Rightarrow> real" where
  "fdiv a b = round_double (a / b)"

section \<open>Time to step conversion\<close>

definition STEPS_PER_QUARTER :: int where
  "STEPS_PER_QUARTER = 4"

text \<open>Python's \<^verbatim>\<open>int(x)\<close> on a finite float: truncation towards zero.\<close>

definition py_int :: "real \<Rightarrow> int" where
  "py_int x = (if 0 \<le> x then \<lfloor>x\<rfloor> else \<lceil>x\<rceil>)"

text \<open>
  \<^verbatim>\<open>_seconds_to_steps\<close>: \<^verbatim>\<open>int(seconds * (qpm / 60.0) * self._steps_per_quarter)\<close>, where
  \<^verbatim>\<open>_steps_per_quarter\<close> is set to \<^verbatim>\<open>STEPS_PER_QUARTER\<close> by the constructor and never
  written again. The division is done first, then the two multiplications from the left,
  each rounded. The conversion is modelled where the product is finite: on an infinite
  product \<^verbatim>\<open>int\<close> raises OverflowError.
\<close>

definition seconds_to_steps :: "real \<Rightarrow> real \<Rightarrow> int" where
  "seconds_to_steps seconds q =
     py_int (fmul (fmul seconds (fdiv q 60)) (of_int STEPS_PER_QUARTER))"

section \<open>The generation pipeline\<close>

text \<open>
  Lines 88--91 of \<^verbatim>\<open>_generate\<close>: an input section, if there is one, limits the input
  sequence. The first component is the call made on the library.
\<close>

definition limit_input ::
  "'q environment \<Rightarrow> note_sequence \<Rightarrow> generator_options \<Rightarrow> event list \<times> note_sequence" where
  "limit_input env input_sequence generator_options =
     (if input_sections generator_options \<noteq> [] then
        let input_section = input_sections generator_options ! 0
        in ([ExtractSubsequence (section_start_time input_section)
               (section_end_time input_section)],
            extract_subsequence env input_sequence (section_start_time input_section)
              (section_end_time input_section))
      else ([], input_sequence))"

text \<open>Lines 93--96: the latest end time of an instrument-1 note, 0 without such a note.\<close>

definition accompaniment_end_time :: "note_sequence \<Rightarrow> real" where
  "accompaniment_end_time input_sequence =
     (let accompaniment_end_times =
            map end_time (filter (\<lambda>n. instrument n = 1) (seq_notes input_sequence))
      in if accompaniment_end_times \<noteq> [] then Max (set accompaniment_end_times) else 0)"

text \<open>
  Lines 117--118: the first tempo of the input sequence, or the default. The sequence
  object itself is always truthy there, its \<^verbatim>\<open>notes\<close> having been read before.
\<close>

definition resolved_qpm :: "'q environment \<Rightarrow> note_sequence \<Rightarrow> real" where
  "resolved_qpm env input_sequence =
     (case tempos input_sequence of
        [] \<Rightarrow> DEFAULT_QUARTERS_PER_MINUTE env
      | t # _ \<Rightarrow> qpm t)"

text \<open>
  Lines 130--147: the dispatch on the number of extracted melodies. The result holds the
  main melody, the accompaniment and the start step, which the one-melody branch
  increments. A list repeated a negative number of times is empty in Python, hence
  \<open>nat\<close>.
\<close>

definition primer_melodies ::
  "'q environment \<Rightarrow> melody list \<Rightarrow> int \<Rightarrow> event list \<times> (error + melody \<times> melody \<times> int)" where
  "primer_melodies env extracted_melodies start_step0 =
     (if length extracted_melodies = 2 then
        ([], Inr (extracted_melodies ! 0, extracted_melodies ! 1, start_step0))
      else if length extracted_melodies = 1 then
        let main_melody = extracted_melodies ! 0;
            accompaniment =
              Melody (replicate (nat (start_step0 - start_step main_melody))
                        (MELODY_NO_EVENT env) @ [randint env 16 54])
                     (start_step main_melody)
        in ([LoggingWarn, RandomRandint 16 54],
            Inr (main_melody, accompaniment, start_step0 + 1))
      else
        ([], Inl (SequenceGeneratorException (MelodiesCount (length extracted_melodies)))))"

text \<open>
  Lines 149--159: the accompaniment is set to the length that ends at the start step,
  the model is asked for the remaining steps, and the two generated melodies are
  converted and merged. \<open>lg\<close> is the list of the calls made before.
\<close>

definition invoke_model ::
  "'q environment \<Rightarrow> event list \<Rightarrow> real \<Rightarrow> real \<Rightarrow> int \<Rightarrow> melody \<Rightarrow> melody \<Rightarrow> int \<Rightarrow>
     event list \<times> (error + note_sequence)" where
  "invoke_model env lg q temperature end_step main_melody accompaniment0 start_step1 =
     (let accompaniment =
            set_length env accompaniment0 (start_step1 - start_step accompaniment0);
          lg' = lg @ [SetLength accompaniment0 (start_step1 - start_step accompaniment0),
                      GenerateMelodyPair (end_step - start_step1) main_melody
                        accompaniment temperature]
      in case generate_melody_pair env (end_step - start_step1)
                (main_melody, accompaniment) temperature of
           Inl m \<Rightarrow> (lg', Inl (ModelError m))
         | Inr generated_pair \<Rightarrow>
             let sequence = to_sequence env (fst generated_pair) 0 q;
                 other = to_sequence env (snd generated_pair) 1 q
             in (lg' @ [ToSequence (fst generated_pair) 0 q,
                        ToSequence (snd generated_pair) 1 q],
                 Inr (sequence\<lparr>seq_notes := seq_notes sequence @ seq_notes other\<rparr>)))"

text \<open>
  \<^verbatim>\<open>_generate\<close>, lines 73--159. The result is the list of calls made on the
  collaborators together with the raised error or the returned sequence.
\<close>

definition generate ::
  "'q environment \<Rightarrow> note_sequence \<Rightarrow> generator_options \<Rightarrow>
     event list \<times> (error + note_sequence)" where
  "generate env input_sequence0 generator_options =
     (if length (input_sections generator_options) > 1 then
        ([], Inl (SequenceGeneratorException
                    (InputSectionsCount (length (input_sections generator_options)))))
      else if length (generate_sections generator_options) \<noteq> 1 then
        ([], Inl (SequenceGeneratorException
                    (GenerateSectionsCount (length (generate_sections generator_options)))))
      else
        let temperature =
              (case args generator_options ''temperature'' of Some v \<Rightarrow> v | None \<Rightarrow> 1);
            generate_section = generate_sections generator_options ! 0;
            log1 = fst (limit_input env input_sequence0 generator_options);
            input_sequence = snd (limit_input env input_sequence0 generator_options)
        in if accompaniment_end_time input_sequence > section_start_time generate_section
           then
             (log1, Inl (SequenceGeneratorException
                           (BeforeAccompanimentEnd (section_start_time generate_section)
                              (accompaniment_end_time input_sequence))))
           else
             let quantized_sequence =
                   from_note_sequence env input_sequence STEPS_PER_QUARTER;
                 extracted_melodies = extract_melodies env quantized_sequence;
                 log2 = log1 @ [FromNoteSequence STEPS_PER_QUARTER, ExtractMelodies]
             in if \<not> (1 \<le> length extracted_melodies \<and> length extracted_melodies \<le> 2)
                then (log2, Inl AssertionError)
                else
                  let q = resolved_qpm env input_sequence;
                      start_step0 = seconds_to_steps (section_start_time generate_section) q;
                      end_step = seconds_to_steps (section_end_time generate_section) q
                  in if start_step0 < predictahead_steps env then
                       (log2, Inl (SequenceGeneratorException
                                     (BeforePredictahead (predictahead_steps env) start_step0)))
                     else
                       (case primer_melodies env extracted_melodies start_step0 of
                          (log3, Inl e) \<Rightarrow> (log2 @ log3, Inl e)
                        | (log3, Inr (main_melody, accompaniment0, start_step1)) \<Rightarrow>
                            invoke_model env (log2 @ log3) q temperature end_step
                              main_melody accompaniment0 start_step1))"

section \<open>What a call goes through\<close>

text \<open>
  The values \<^verbatim>\<open>_generate\<close> computes on its way, as functions of the call: the limited
  input sequence, the extracted melodies, the resolved qpm, the converted steps of the
  generate section and the temperature.
\<close>

definition the_input :: "'q environment \<Rightarrow> note_sequence \<Rightarrow> generator_options \<Rightarrow> note_sequence" where
  "the_input env input_sequence generator_options =
     snd (limit_input env input_sequence generator_options)"

definition the_melodies :: "'q environment \<Rightarrow> note_sequence \<Rightarrow> generator_options \<Rightarrow> melody list" where
  "the_melodies env input_sequence generator_options =
     extract_melodies env
       (from_note_sequence env (the_input env input_sequence generator_options)
          STEPS_PER_QUARTER)"

definition the_qpm :: "'q environment \<Rightarrow> note_sequence \<Rightarrow> generator_options \<Rightarrow> real" where
  "the_qpm env input_sequence generator_options =
     resolved_qpm env (the_input env input_sequence generator_options)"

definition the_start_step :: "'q environment \<Rightarrow> note_sequence \<Rightarrow> generator_options \<Rightarrow> int" where
  "the_start_step env input_sequence generator_options =
     seconds_to_steps (section_start_time (generate_sections generator_options ! 0))
       (the_qpm env input_sequence generator_options)"

definition the_end_step :: "'q environment \<Rightarrow> note_sequence \<Rightarrow> generator_options \<Rightarrow> int" where
  "the_end_step env input_sequence generator_options =
     seconds_to_steps (section_end_time (generate_sections generator_options ! 0))
       (the_qpm env input_sequence generator_options)"

definition the_temperature :: "generator_options \<Rightarrow> real" where
  "the_temperature generator_options =
     (case args generator_options ''temperature'' of Some v \<Rightarrow> v | None \<Rightarrow> 1)"

text \<open>The calls made by the time the melodies are extracted.\<close>

definition checked_log :: "'q environment \<Rightarrow> note_sequence \<Rightarrow> generator_options \<Rightarrow> event list" where
  "checked_log env input_sequence generator_options =
     fst (limit_input env input_sequence generator_options) @
     [FromNoteSequence STEPS_PER_QUARTER, ExtractMelodies]"

text \<open>The two checks on the numbers of sections pass (lines 74 and 78).\<close>

definition sections_ok :: "generator_options \<Rightarrow> bool" where
  "sections_ok generator_options \<longleftrightarrow>
     length (input_sections generator_options) \<le> 1 \<and>
     length (generate_sections generator_options) = 1"

text \<open>The call gets past the check of line 97 and the assertion of line 115.\<close>

definition reaches_conversion ::
  "'q environment \<Rightarrow> note_sequence \<Rightarrow> generator_options \<Rightarrow> bool" where
  "reaches_conversion env input_sequence generator_options \<longleftrightarrow>
     sections_ok generator_options \<and>
     accompaniment_end_time (the_input env input_sequence generator_options)
       \<le> section_start_time (generate_sections generator_options ! 0) \<and>
     1 \<le> length (the_melodies env input_sequence generator_options) \<and>
     length (the_melodies env input_sequence generator_options) \<le> 2"

definition is_model_call :: "event \<Rightarrow> bool" where
  "is_model_call e = (case e of GenerateMelodyPair _ _ _ _ \<Rightarrow> True | _ \<Rightarrow> False)"

definition is_generation_error :: "error + 'a \<Rightarrow> bool" where
  "is_generation_error r =
     (case r of Inl (SequenceGeneratorException _) \<Rightarrow> True | _ \<Rightarrow> False)"

text \<open>The step counts asked of the model, one for each model call of a list of calls.\<close>

fun requested_steps :: "event list \<Rightarrow> int list" where
  "requested_steps [] = []"
| "requested_steps (GenerateMelodyPair n main_melody accompaniment t # es) =
     n # requested_steps es"
| "requested_steps (e # es) = requested_steps es"

text \<open>
  What the callers of the library rely on: \<^verbatim>\<open>to_sequence\<close> gives every note the
  instrument it is passed, and \<^verbatim>\<open>set_length\<close> with a non-negative number of steps
  keeps the start step and leaves that many events.
\<close>

definition tags_instrument :: "'q environment \<Rightarrow> bool" where
  "tags_instrument env \<longleftrightarrow>
     (\<forall>m i q. \<forall>n \<in> set (seq_notes (to_sequence env m i q)). instrument n = i)"


text \<open>The sequence returned for a generated pair (lines 156--159).\<close>

definition merged :: "'q environment \<Rightarrow> melody \<times> melody \<Rightarrow> real \<Rightarrow> note_sequence" where
  "merged env generated_pair q =
     (to_sequence env (fst generated_pair) 0 q)
       \<lparr>seq_notes := seq_notes (to_sequence env (fst generated_pair) 0 q) @
                     seq_notes (to_sequence env (snd generated_pair) 1 q)\<rparr>"

text \<open>The accompaniment made up when one melody is extracted (lines 138--142).\<close>

definition fabricated :: "'q environment \<Rightarrow> melody \<Rightarrow> int \<Rightarrow> melody" where
  "fabricated env main_melody start_step0 =
     Melody (replicate (nat (start_step0 - start_step main_melody)) (MELODY_NO_EVENT env) @
             [randint env 16 54])
            (start_step main_melody)"

section \<open>A stub of the collaborators\<close>

text \<open>
  To run the pipeline on concrete inputs: a library whose melody extraction returns a
  given list, whose \<^verbatim>\<open>set_length\<close> truncates or pads with the no-event marker, whose
  \<^verbatim>\<open>to_sequence\<close> makes one note per pitch event, a random source that returns its
  lower bound, and a model that returns the primer when \<open>ok\<close> and raises otherwise.
\<close>

definition stub_set_length :: "melody \<Rightarrow> int \<Rightarrow> melody" where
  "stub_set_length m n =
     Melody (take (nat n) (events m) @ replicate (nat n - length (events m)) (- 2))
       (start_step m)"

definition stub_to_sequence :: "melody \<Rightarrow> int \<Rightarrow> real \<Rightarrow> note_sequence" where
  "stub_to_sequence m i q =
     \<lparr>seq_notes = map (\<lambda>p. \<lparr>instrument = i, pitch = p, start_time = 0, end_time = 0\<rparr>)
                    (filter (\<lambda>p. 0 \<le> p) (events m)),
      tempos = [\<lparr>qpm = q\<rparr>]\<rparr>"

definition stub :: "melody list \<Rightarrow> int \<Rightarrow> bool \<Rightarrow> unit environment" where
  "stub ms p ok =
     \<lparr>extract_subsequence = (\<lambda>s a b. s),
      from_note_sequence = (\<lambda>s k. ()),
      extract_melodies = (\<lambda>u. ms),
      set_length = stub_set_length,
      to_sequence = stub_to_sequence,
      MELODY_NO_EVENT = - 2,
      DEFAULT_QUARTERS_PER_MINUTE = 120,
      randint = (\<lambda>a b. a),
      predictahead_steps = p,
      generate_melody_pair = (\<lambda>n pr t. if ok then Inr pr else Inl ''model'')\<rparr>"

text \<open>
  Concrete inputs at 120 qpm, where one second is 8 steps: a sequence with one note of
  instrument 0 and the melody extracted from it, a sequence that also has a note of
  instrument 1 and its two melodies, one with a third instrument, and a request with one generate section and no
  input section.
\<close>

definition solo :: note_sequence where
  "solo =
     \<lparr>seq_notes = [\<lparr>instrument = 0, pitch = 60, start_time = 0, end_time = 1 / 2\<rparr>],
      tempos = [\<lparr>qpm = 120\<rparr>]\<rparr>"

definition duet :: note_sequence where
  "duet =
     \<lparr>seq_notes = [\<lparr>instrument = 0, pitch = 60, start_time = 0, end_time = 1 / 2\<rparr>,
                   \<lparr>instrument = 1, pitch = 48, start_time = 0, end_time = 1 / 2\<rparr>],
      tempos = [\<lparr>qpm = 120\<rparr>]\<rparr>"

definition solo_melodies :: "melody list" where
  "solo_melodies = [Melody [60, - 2, - 2, - 2] 0]"

definition duet_melodies :: "melody list" where
  "duet_melodies = [Melody [60, - 2, - 2, - 2] 0, Melody [48, - 2, - 2, - 2] 0]"

definition trio :: note_sequence where
  "trio =
     \<lparr>seq_notes = [\<lparr>instrument = 0, pitch = 60, start_time = 0, end_time = 1 / 2\<rparr>,
                   \<lparr>instrument = 1, pitch = 48, start_time = 0, end_time = 1 / 2\<rparr>,
                   \<lparr>instrument = 2, pitch = 72, start_time = 0, end_time = 1 / 2\<rparr>],
      tempos = [\<lparr>qpm = 120\<rparr>]\<rparr>"

definition trio_melodies :: "melody list" where
  "trio_melodies =
     [Melody [60, - 2, - 2, - 2] 0, Melody [48, - 2, - 2, - 2] 0, Melody [72, - 2, - 2, - 2] 0]"

definition request :: "real \<Rightarrow> real \<Rightarrow> generator_options" where
  "request a b =
     \<lparr>input_sections = [],
      generate_sections = [\<lparr>section_start_time = a, section_end_time = b\<rparr>],
      args = Map.empty\<rparr>"

section \<open>Properties of the conversion\<close>

lemma py_int_nonneg: "0 \<le> x \<Longrightarrow> py_int x = \<lfloor>x\<rfloor>"
  by (simp add: py_int_def)

lemma pow2_pos: "0 < pow2 e"
  by (simp add: pow2_def)

lemma round_half_even_nonneg: "0 \<le> m \<Longrightarrow> 0 \<le> round_half_even m"
  by (simp add: round_half_even_def)

lemma round_double_nonneg: "0 \<le> x \<Longrightarrow> 0 \<le> round_double x"
proof (cases "x = 0")
  case True
  then show ?thesis by (simp add: round_double_def)
next
  case False
  assume "0 \<le> x"
  with False have pos: "0 < x" by simp
  have "0 \<le> \<bar>x\<bar> / pow2 (double_exponent x - 52)"
    using pow2_pos [of "double_exponent x - 52"] by simp
  then have "0 \<le> round_half_even (\<bar>x\<bar> / pow2 (double_exponent x - 52))"
    by (rule round_half_even_nonneg)
  then have "0 \<le> real_of_int (round_half_even (\<bar>x\<bar> / pow2 (double_exponent x - 52))) *
      pow2 (double_exponent x - 52)"
    using pow2_pos [of "double_exponent x - 52"] by simp
  with pos show ?thesis by (simp add: round_double_def)
qed

lemmas double_defs = fmul_def fdiv_def round_double_def double_exponent_def
  round_half_even_def pow2_def exponent_up.simps exponent_down.simps

text \<open>The conversions of the inputs run below, at 120 qpm.\<close>

lemma steps_at_120:
  "seconds_to_steps 0 120 = 0"
  "seconds_to_steps (1 / 4) 120 = 2"
  "seconds_to_steps (1 / 2) 120 = 4"
  "seconds_to_steps 1 120 = 8"
  "seconds_to_steps 2 120 = 16"
  by (simp_all add: seconds_to_steps_def STEPS_PER_QUARTER_def py_int_def double_defs)

text \<open>
  C8, as stated, fails: the product is computed in doubles, and its floor can be one less
  than the floor of the exact product. For 5.625 seconds at 168 qpm the quotient
  \<open>168 / 60\<close> rounds below 2.8, the product stays below 63 and the conversion gives 62,
  where \<open>5.625 * (168 / 60) * 4\<close> is exactly 63.
\<close>

theorem seconds_to_steps_floor_counterexample:
  "seconds_to_steps (45 / 8) 168 = 62 \<and> \<lfloor>(45 / 8) * (168 / 60) * (4::real)\<rfloor> = 63"
  by (simp add: seconds_to_steps_def STEPS_PER_QUARTER_def py_int_def double_defs)

text \<open>
  C8, amended. For every non-negative number of seconds and positive qpm whose product
  stays finite, the conversion is the floor of \<open>seconds * (qpm / 60) * steps_per_quarter\<close>
  as computed in double precision (the division and the two multiplications each rounded
  to the nearest double), with \<open>steps_per_quarter = 4\<close>: it truncates and does not round;
  0.9 seconds (the double nearest to it) at 60 qpm are 3 steps.
\<close>

theorem seconds_to_steps_floor:
  "0 \<le> seconds \<Longrightarrow> 0 < q \<Longrightarrow>
   finite_double (fmul seconds (fdiv q 60)) \<Longrightarrow>
   finite_double (fmul (fmul seconds (fdiv q 60)) 4) \<Longrightarrow>
     STEPS_PER_QUARTER = 4 \<and>
     seconds_to_steps seconds q = \<lfloor>fmul (fmul seconds (fdiv q 60)) 4\<rfloor> \<and>
     seconds_to_steps (round_double (9 / 10)) 60 = 3"
proof -
  assume s: "0 \<le> seconds" and q: "0 < q"
  have "0 \<le> fdiv q 60"
    unfolding fdiv_def using q by (intro round_double_nonneg) simp
  with s have "0 \<le> fmul seconds (fdiv q 60)"
    unfolding fmul_def by (intro round_double_nonneg) simp
  then have "0 \<le> fmul (fmul seconds (fdiv q 60)) 4"
    unfolding fmul_def [of _ 4] by (intro round_double_nonneg) simp
  then have general: "seconds_to_steps seconds q = \<lfloor>fmul (fmul seconds (fdiv q 60)) 4\<rfloor>"
    by (simp add: seconds_to_steps_def STEPS_PER_QUARTER_def py_int_nonneg)
  have example: "seconds_to_steps (round_double (9 / 10)) 60 = 3"
    by (simp add: seconds_to_steps_def STEPS_PER_QUARTER_def py_int_def double_defs)
  show ?thesis
    using general example by (simp add: STEPS_PER_QUARTER_def)
qed

theorem seconds_to_steps_floor_witness:
  "(0::real) \<le> 5 / 2 \<and> (0::real) < 120 \<and>
   finite_double (fmul (5 / 2) (fdiv 120 60)) \<and>
   finite_double (fmul (fmul (5 / 2) (fdiv 120 60)) 4) \<and>
   fmul (fmul (5 / 2) (fdiv 120 60)) 4 = 20 \<and>
   seconds_to_steps (5 / 2) 120 = 20 \<and>
   seconds_to_steps (round_double (9 / 10)) 60 = 3"
proof -
  have h1: "(0::real) \<le> 5 / 2" by simp
  have h2: "(0::real) < 120" by simp
  have v1: "fmul (5 / 2) (fdiv 120 60) = 5"
    by (simp add: double_defs)
  have v2: "fmul (fmul (5 / 2) (fdiv 120 60)) 4 = 20"
    unfolding v1 by (simp add: double_defs)
  have h3: "finite_double (fmul (5 / 2) (fdiv 120 60))"
    unfolding v1 by (simp add: finite_double_def pow2_def)
  have h4: "finite_double (fmul (fmul (5 / 2) (fdiv 120 60)) 4)"
    unfolding v2 by (simp add: finite_double_def pow2_def)
  from seconds_to_steps_floor [OF h1 h2 h3 h4] v2
  have "seconds_to_steps (5 / 2) 120 = 20 \<and> seconds_to_steps (round_double (9 / 10)) 60 = 3"
    by simp
  with h1 h2 h3 h4 v2 show ?thesis by simp
qed

section \<open>The branches of a call\<close>

lemmas obs_defs = the_input_def the_melodies_def the_qpm_def the_start_step_def
  the_end_step_def the_temperature_def sections_ok_def reaches_conversion_def checked_log_def

lemma generate_bad_sections:
  "\<not> sections_ok opts \<Longrightarrow>
   generate env s opts =
     ([], Inl (SequenceGeneratorException
        (if 1 < length (input_sections opts)
         then InputSectionsCount (length (input_sections opts))
         else GenerateSectionsCount (length (generate_sections opts)))))"
  by (auto simp add: generate_def sections_ok_def)

lemma generate_accompaniment_late:
  "sections_ok opts \<Longrightarrow>
   section_start_time (generate_sections opts ! 0) < accompaniment_end_time (the_input env s opts) \<Longrightarrow>
   generate env s opts =
     (fst (limit_input env s opts),
      Inl (SequenceGeneratorException
        (BeforeAccompanimentEnd (section_start_time (generate_sections opts ! 0))
           (accompaniment_end_time (the_input env s opts)))))"
  by (simp add: generate_def obs_defs Let_def)

lemma generate_assertion:
  "sections_ok opts \<Longrightarrow>
   accompaniment_end_time (the_input env s opts) \<le> section_start_time (generate_sections opts ! 0) \<Longrightarrow>
   \<not> (1 \<le> length (the_melodies env s opts) \<and> length (the_melodies env s opts) \<le> 2) \<Longrightarrow>
   generate env s opts = (checked_log env s opts, Inl AssertionError)"
  by (auto simp add: generate_def obs_defs Let_def)

lemma generate_predictahead:
  "reaches_conversion env s opts \<Longrightarrow>
   the_start_step env s opts < predictahead_steps env \<Longrightarrow>
   generate env s opts =
     (checked_log env s opts,
      Inl (SequenceGeneratorException
        (BeforePredictahead (predictahead_steps env) (the_start_step env s opts))))"
  by (auto simp add: generate_def obs_defs Let_def)

lemma generate_two_melodies:
  "reaches_conversion env s opts \<Longrightarrow>
   predictahead_steps env \<le> the_start_step env s opts \<Longrightarrow>
   the_melodies env s opts = [main_melody, accompaniment] \<Longrightarrow>
   generate env s opts =
     invoke_model env (checked_log env s opts) (the_qpm env s opts) (the_temperature opts)
       (the_end_step env s opts) main_melody accompaniment (the_start_step env s opts)"
  by (auto simp add: generate_def obs_defs Let_def primer_melodies_def)

lemma generate_one_melody:
  "reaches_conversion env s opts \<Longrightarrow>
   predictahead_steps env \<le> the_start_step env s opts \<Longrightarrow>
   the_melodies env s opts = [main_melody] \<Longrightarrow>
   generate env s opts =
     invoke_model env (checked_log env s opts @ [LoggingWarn, RandomRandint 16 54])
       (the_qpm env s opts) (the_temperature opts) (the_end_step env s opts) main_melody
       (fabricated env main_melody (the_start_step env s opts))
       (the_start_step env s opts + 1)"
  by (auto simp add: generate_def obs_defs Let_def primer_melodies_def fabricated_def)

lemma length_one_or_two:
  "1 \<le> length xs \<Longrightarrow> length xs \<le> 2 \<Longrightarrow> (\<exists>a. xs = [a]) \<or> (\<exists>a b. xs = [a, b])"
  by (cases xs; cases "tl xs"; cases "tl (tl xs)") auto

lemma invoke_model_result:
  "snd (invoke_model env lg q t e m a st) =
     (case generate_melody_pair env (e - st) (m, set_length env a (st - start_step a)) t of
        Inl x \<Rightarrow> Inl (ModelError x)
      | Inr gp \<Rightarrow> Inr (merged env gp q))"
  by (simp add: invoke_model_def merged_def Let_def split: sum.splits)

lemma invoke_model_log:
  "fst (invoke_model env lg q t e m a st) =
     lg @ [SetLength a (st - start_step a),
           GenerateMelodyPair (e - st) m (set_length env a (st - start_step a)) t] @
     (case generate_melody_pair env (e - st) (m, set_length env a (st - start_step a)) t of
        Inl x \<Rightarrow> []
      | Inr gp \<Rightarrow> [ToSequence (fst gp) 0 q, ToSequence (snd gp) 1 q])"
  by (simp add: invoke_model_def Let_def split: sum.splits)

lemma invoke_model_no_generation_error:
  "\<not> is_generation_error (snd (invoke_model env lg q t e m a st))"
  by (simp add: invoke_model_result is_generation_error_def split: sum.splits)

lemma no_model_call_checked_log: "\<forall>e \<in> set (checked_log env s opts). \<not> is_model_call e"
  by (auto simp add: checked_log_def limit_input_def is_model_call_def Let_def)

lemma requested_steps_append: "requested_steps (xs @ ys) = requested_steps xs @ requested_steps ys"
  by (induction xs rule: requested_steps.induct) simp_all

lemma requested_steps_checked_log: "requested_steps (checked_log env s opts) = []"
  by (simp add: checked_log_def limit_input_def Let_def requested_steps_append)


lemma model_called_once:
  "filter is_model_call (fst (invoke_model env lg q t e m a st)) =
     filter is_model_call lg @
     [GenerateMelodyPair (e - st) m (set_length env a (st - start_step a)) t]"
  by (simp add: invoke_model_log is_model_call_def split: sum.splits)

lemma filter_checked_log: "filter is_model_call (checked_log env s opts) = []"
  using no_model_call_checked_log [of env s opts] by (simp add: filter_empty_conv)

lemma reaches_conversion_cases:
  assumes "reaches_conversion env s opts"
  obtains m where "the_melodies env s opts = [m]"
  | m a where "the_melodies env s opts = [m, a]"
  using assms length_one_or_two [of "the_melodies env s opts"]
  by (auto simp add: reaches_conversion_def)

text \<open>
  C5. A request with more than one input section, or with a number of generate sections
  other than one, fails with a SequenceGeneratorException before any call is made on the
  library: nothing is limited, quantized or extracted. The two counts are checked first
  and in that order, so that a request violating both is reported for its input sections.
\<close>

theorem section_counts_checked_first:
  "1 < length (input_sections opts) \<or> length (generate_sections opts) \<noteq> 1 \<Longrightarrow>
   generate env s opts =
     ([], Inl (SequenceGeneratorException
        (if 1 < length (input_sections opts)
         then InputSectionsCount (length (input_sections opts))
         else GenerateSectionsCount (length (generate_sections opts))))) \<and>
   fst (generate env s opts) = [] \<and>
   is_generation_error (snd (generate env s opts))"
  by (auto simp add: generate_def is_generation_error_def)

text \<open>
  C9. Whenever the call raises a SequenceGeneratorException, the model has not been
  invoked in it: every raise site lies before the model call. There is at most one model
  call in any call of \<open>generate\<close>.
\<close>

theorem no_model_call_on_generation_error:
  "(is_generation_error (snd (generate env s opts)) \<longrightarrow>
      (\<forall>e \<in> set (fst (generate env s opts)). \<not> is_model_call e)) \<and>
   length (filter is_model_call (fst (generate env s opts))) \<le> 1"
proof (cases "reaches_conversion env s opts \<and> predictahead_steps env \<le> the_start_step env s opts")
  case True
  then have r: "reaches_conversion env s opts"
    and p: "predictahead_steps env \<le> the_start_step env s opts" by simp_all
  from r show ?thesis
  proof (cases rule: reaches_conversion_cases)
    case (1 m)
    show ?thesis
      unfolding generate_one_melody [OF r p 1]
      by (simp add: invoke_model_no_generation_error model_called_once filter_checked_log
          is_model_call_def)
  next
    case (2 m a)
    show ?thesis
      unfolding generate_two_melodies [OF r p 2]
      by (simp add: invoke_model_no_generation_error model_called_once filter_checked_log)
  qed
next
  case False
  have quiet: "\<forall>e \<in> set (fst (generate env s opts)). \<not> is_model_call e"
  proof (cases "sections_ok opts")
    case no: False
    show ?thesis by (simp add: generate_bad_sections [OF no])
  next
    case ok: True
    show ?thesis
    proof (cases "section_start_time (generate_sections opts ! 0)
                    < accompaniment_end_time (the_input env s opts)")
      case late: True
      show ?thesis
        by (simp add: generate_accompaniment_late [OF ok late] limit_input_def
            is_model_call_def Let_def)
    next
      case early: False
      show ?thesis
      proof (cases "1 \<le> length (the_melodies env s opts) \<and>
                    length (the_melodies env s opts) \<le> 2")
        case count: False
        from early have "accompaniment_end_time (the_input env s opts)
            \<le> section_start_time (generate_sections opts ! 0)" by simp
        from generate_assertion [OF ok this count] no_model_call_checked_log [of env s opts]
        show ?thesis by simp
      next
        case count: True
        with ok early have r: "reaches_conversion env s opts"
          by (simp add: reaches_conversion_def)
        with False have "the_start_step env s opts < predictahead_steps env" by simp
        from generate_predictahead [OF r this] no_model_call_checked_log [of env s opts]
        show ?thesis by simp
      qed
    qed
  qed
  then have "filter is_model_call (fst (generate env s opts)) = []"
    by (simp add: filter_empty_conv)
  with quiet show ?thesis by simp
qed

text \<open>
  C7. For a call that gets as far as converting the start time of the generate section to
  steps with the resolved qpm, a SequenceGeneratorException is raised exactly when the
  converted start step is strictly below the model's \<open>predictahead_steps\<close>; a start
  step equal to it is accepted. The step that is checked and reported is the converted
  one, before the one-melody branch increments it.
\<close>

theorem predictahead_check:
  assumes "reaches_conversion env s opts"
  shows "(is_generation_error (snd (generate env s opts)) \<longleftrightarrow>
            the_start_step env s opts < predictahead_steps env) \<and>
         (the_start_step env s opts < predictahead_steps env \<longrightarrow>
            generate env s opts =
              (checked_log env s opts,
               Inl (SequenceGeneratorException
                 (BeforePredictahead (predictahead_steps env) (the_start_step env s opts)))))"
proof (cases "the_start_step env s opts < predictahead_steps env")
  case True
  from generate_predictahead [OF assms True] True show ?thesis
    by (simp add: is_generation_error_def)
next
  case False
  then have p: "predictahead_steps env \<le> the_start_step env s opts" by simp
  from assms show ?thesis
  proof (cases rule: reaches_conversion_cases)
    case (1 m)
    show ?thesis
      unfolding generate_one_melody [OF assms p 1]
      using False by (simp add: invoke_model_no_generation_error)
  next
    case (2 m a)
    show ?thesis
      unfolding generate_two_melodies [OF assms p 2]
      using False by (simp add: invoke_model_no_generation_error)
  qed
qed


lemmas run_defs = generate_def limit_input_def accompaniment_end_time_def resolved_qpm_def
  primer_melodies_def invoke_model_def steps_at_120 STEPS_PER_QUARTER_def
  stub_def stub_set_length_def stub_to_sequence_def solo_def duet_def trio_def
  solo_melodies_def duet_melodies_def trio_melodies_def request_def Let_def

lemma accompaniment_end_time_none:
  "\<forall>n \<in> set (seq_notes x). instrument n \<noteq> 1 \<Longrightarrow> accompaniment_end_time x = 0"
  by (simp add: accompaniment_end_time_def filter_empty_conv)

lemma accompaniment_end_time_some:
  "\<not> (\<forall>n \<in> set (seq_notes x). instrument n \<noteq> 1) \<Longrightarrow>
   accompaniment_end_time x = Max (end_time ` {n \<in> set (seq_notes x). instrument n = 1})"
  by (auto simp add: accompaniment_end_time_def filter_empty_conv Let_def)

text \<open>
  C6, as stated, fails: a SequenceGeneratorException is also raised when the latest end of
  an instrument-1 note is not after the start of the generate section. Here the input has
  no note of instrument 1 (latest end 0), the section starts at 0, and the call fails on
  the predict-ahead check.
\<close>

theorem accompaniment_end_check_counterexample:
  "is_generation_error (snd (generate (stub solo_melodies 1 True) solo (request 0 2))) \<and>
   snd (generate (stub solo_melodies 1 True) solo (request 0 2)) =
     Inl (SequenceGeneratorException (BeforePredictahead 1 0)) \<and>
   accompaniment_end_time (the_input (stub solo_melodies 1 True) solo (request 0 2)) = 0 \<and>
   section_start_time (generate_sections (request 0 2) ! 0) = 0 \<and>
   \<not> (section_start_time (generate_sections (request 0 2) ! 0)
        < accompaniment_end_time (the_input (stub solo_melodies 1 True) solo (request 0 2)))"
  by (simp add: run_defs the_input_def is_generation_error_def)

text \<open>
  C6, amended. When the two section counts pass, the call raises the
  SequenceGeneratorException of line 98 (request before the end of the accompaniment) if
  and only if the latest end time of the instrument-1 notes of the (possibly limited) input
  sequence is strictly after the start time of the generate section; the two times being
  equal is accepted. That latest end time is 0 for an input without instrument-1 notes.
\<close>

theorem accompaniment_end_check:
  assumes "sections_ok opts"
  shows "((\<exists>a b. snd (generate env s opts) =
              Inl (SequenceGeneratorException (BeforeAccompanimentEnd a b))) \<longleftrightarrow>
            section_start_time (generate_sections opts ! 0)
              < accompaniment_end_time (the_input env s opts)) \<and>
         (section_start_time (generate_sections opts ! 0)
            < accompaniment_end_time (the_input env s opts) \<longrightarrow>
          generate env s opts =
            (fst (limit_input env s opts),
             Inl (SequenceGeneratorException
               (BeforeAccompanimentEnd (section_start_time (generate_sections opts ! 0))
                  (accompaniment_end_time (the_input env s opts)))))) \<and>
         accompaniment_end_time x =
           (if \<forall>n \<in> set (seq_notes x). instrument n \<noteq> 1 then 0
            else Max (end_time ` {n \<in> set (seq_notes x). instrument n = 1}))"
proof -
  let ?late = "section_start_time (generate_sections opts ! 0)
                 < accompaniment_end_time (the_input env s opts)"
  have third: "accompaniment_end_time x =
           (if \<forall>n \<in> set (seq_notes x). instrument n \<noteq> 1 then 0
            else Max (end_time ` {n \<in> set (seq_notes x). instrument n = 1}))"
    using accompaniment_end_time_none [of x] accompaniment_end_time_some [of x]
    by (simp split: if_splits)
  have other: "\<not> (\<exists>a b. snd (generate env s opts) =
              Inl (SequenceGeneratorException (BeforeAccompanimentEnd a b)))" if "\<not> ?late"
  proof (cases "1 \<le> length (the_melodies env s opts) \<and>
                length (the_melodies env s opts) \<le> 2")
    case count: False
    from that have "accompaniment_end_time (the_input env s opts)
        \<le> section_start_time (generate_sections opts ! 0)" by simp
    from generate_assertion [OF assms this count] show ?thesis by simp
  next
    case count: True
    with assms that have r: "reaches_conversion env s opts"
      by (simp add: reaches_conversion_def)
    show ?thesis
    proof (cases "the_start_step env s opts < predictahead_steps env")
      case True
      from generate_predictahead [OF r True] show ?thesis by simp
    next
      case False
      then have p: "predictahead_steps env \<le> the_start_step env s opts" by simp
      from r show ?thesis
      proof (cases rule: reaches_conversion_cases)
        case (1 m)
        show ?thesis
          unfolding generate_one_melody [OF r p 1]
          by (simp add: invoke_model_result split: sum.splits)
      next
        case (2 m a)
        show ?thesis
          unfolding generate_two_melodies [OF r p 2]
          by (simp add: invoke_model_result split: sum.splits)
      qed
    qed
  qed
  have this_one: "generate env s opts =
            (fst (limit_input env s opts),
             Inl (SequenceGeneratorException
               (BeforeAccompanimentEnd (section_start_time (generate_sections opts ! 0))
                  (accompaniment_end_time (the_input env s opts)))))" if ?late
    using generate_accompaniment_late [OF assms that] .
  from other this_one third show ?thesis
    by (cases ?late) simp_all
qed

theorem accompaniment_end_check_witness:
  "sections_ok (request (1 / 4) 2) \<and>
   snd (generate (stub duet_melodies 1 True) duet (request (1 / 4) 2)) =
     Inl (SequenceGeneratorException (BeforeAccompanimentEnd (1 / 4) (1 / 2))) \<and>
   sections_ok (request (1 / 2) 2) \<and>
   snd (generate (stub duet_melodies 1 True) duet (request (1 / 2) 2)) \<noteq>
     Inl (SequenceGeneratorException (BeforeAccompanimentEnd (1 / 2) (1 / 2)))"
proof -
  have ok1: "sections_ok (request (1 / 4) 2)" and ok2: "sections_ok (request (1 / 2) 2)"
    by (simp_all add: sections_ok_def request_def)
  have late: "section_start_time (generate_sections (request (1 / 4) 2) ! 0)
      < accompaniment_end_time (the_input (stub duet_melodies 1 True) duet (request (1 / 4) 2))"
    by (simp add: the_input_def run_defs)
  have equal: "\<not> section_start_time (generate_sections (request (1 / 2) 2) ! 0)
      < accompaniment_end_time (the_input (stub duet_melodies 1 True) duet (request (1 / 2) 2))"
    by (simp add: the_input_def run_defs)
  have maxend: "accompaniment_end_time
       (the_input (stub duet_melodies 1 True) duet (request (1 / 4) 2)) = 1 / 2"
    by (simp add: the_input_def run_defs)
  from accompaniment_end_check [OF ok1, of "stub duet_melodies 1 True" duet duet] late maxend
  have first: "snd (generate (stub duet_melodies 1 True) duet (request (1 / 4) 2)) =
     Inl (SequenceGeneratorException (BeforeAccompanimentEnd (1 / 4) (1 / 2)))"
    by (simp add: request_def)
  from accompaniment_end_check [OF ok2, of "stub duet_melodies 1 True" duet duet] equal
  have second: "snd (generate (stub duet_melodies 1 True) duet (request (1 / 2) 2)) \<noteq>
     Inl (SequenceGeneratorException (BeforeAccompanimentEnd (1 / 2) (1 / 2)))"
    by blast
  from ok1 ok2 first second show ?thesis by simp
qed

section \<open>Running the stub\<close>

lemmas stub_defs = stub_def stub_set_length_def stub_to_sequence_def solo_def duet_def trio_def
  solo_melodies_def duet_melodies_def trio_melodies_def request_def

lemmas step_defs = limit_input_def accompaniment_end_time_def resolved_qpm_def
  steps_at_120 STEPS_PER_QUARTER_def Let_def

theorem section_counts_checked_first_witness:
  "1 < length (input_sections ((request 1 2)\<lparr>input_sections :=
        [\<lparr>section_start_time = 0, section_end_time = 1\<rparr>,
         \<lparr>section_start_time = 1, section_end_time = 2\<rparr>], generate_sections := []\<rparr>)) \<and>
   generate (stub duet_melodies 1 True) duet ((request 1 2)\<lparr>input_sections :=
        [\<lparr>section_start_time = 0, section_end_time = 1\<rparr>,
         \<lparr>section_start_time = 1, section_end_time = 2\<rparr>], generate_sections := []\<rparr>) =
     ([], Inl (SequenceGeneratorException (InputSectionsCount 2)))"
  using section_counts_checked_first [of "(request 1 2)\<lparr>input_sections :=
        [\<lparr>section_start_time = 0, section_end_time = 1\<rparr>,
         \<lparr>section_start_time = 1, section_end_time = 2\<rparr>], generate_sections := []\<rparr>"
        "stub duet_melodies 1 True" duet]
  by (simp add: request_def)

theorem no_model_call_on_generation_error_witness:
  "is_generation_error (snd (generate (stub solo_melodies 9 True) solo (request 1 2))) \<and>
   filter is_model_call (fst (generate (stub solo_melodies 9 True) solo (request 1 2))) = []"
proof -
  have "is_generation_error (snd (generate (stub solo_melodies 9 True) solo (request 1 2)))"
    by (simp add: run_defs is_generation_error_def)
  with no_model_call_on_generation_error [of "stub solo_melodies 9 True" solo "request 1 2"]
  show ?thesis by (simp add: filter_empty_conv)
qed

theorem predictahead_check_witness:
  "reaches_conversion (stub solo_melodies 8 True) solo (request 1 2) \<and>
   the_start_step (stub solo_melodies 8 True) solo (request 1 2) = 8 \<and>
   \<not> is_generation_error (snd (generate (stub solo_melodies 8 True) solo (request 1 2))) \<and>
   reaches_conversion (stub solo_melodies 9 True) solo (request 1 2) \<and>
   generate (stub solo_melodies 9 True) solo (request 1 2) =
     ([FromNoteSequence 4, ExtractMelodies],
      Inl (SequenceGeneratorException (BeforePredictahead 9 8)))"
proof -
  have r8: "reaches_conversion (stub solo_melodies 8 True) solo (request 1 2)"
    and r9: "reaches_conversion (stub solo_melodies 9 True) solo (request 1 2)"
    by (simp_all add: obs_defs step_defs stub_defs)
  have s8: "the_start_step (stub solo_melodies 8 True) solo (request 1 2) = 8"
    and s9: "the_start_step (stub solo_melodies 9 True) solo (request 1 2) = 8"
    by (simp_all add: obs_defs step_defs stub_defs)
  have p: "predictahead_steps (stub solo_melodies 8 True) = 8"
    "predictahead_steps (stub solo_melodies 9 True) = 9"
    by (simp_all add: stub_def)
  have l: "checked_log (stub solo_melodies 9 True) solo (request 1 2) =
      [FromNoteSequence 4, ExtractMelodies]"
    by (simp add: obs_defs step_defs stub_defs)
  from predictahead_check [OF r8] s8 p
  have a: "\<not> is_generation_error (snd (generate (stub solo_melodies 8 True) solo (request 1 2)))"
    by simp
  from predictahead_check [OF r9] s9 p l
  have b: "generate (stub solo_melodies 9 True) solo (request 1 2) =
     ([FromNoteSequence 4, ExtractMelodies],
      Inl (SequenceGeneratorException (BeforePredictahead 9 8)))"
    by simp
  from r8 r9 s8 a b show ?thesis by simp
qed

text \<open>
  C2. The claim asks for a SequenceGeneratorException naming the count when 0 or more than
  2 melodies are extracted, and lines 144--147 raise exactly that. They are never reached:
  the assertion of line 115 fails first, so the call ends in an AssertionError for three
  melodies and for none, while the dispatch of lines 130--147 on its own would report the
  count.
\<close>

theorem three_melodies_assertion:
  "generate (stub trio_melodies 1 True) trio (request 1 2) =
     ([FromNoteSequence 4, ExtractMelodies], Inl AssertionError) \<and>
   generate (stub [] 1 True) \<lparr>seq_notes = [], tempos = []\<rparr> (request 1 2) =
     ([FromNoteSequence 4, ExtractMelodies], Inl AssertionError) \<and>
   primer_melodies (stub trio_melodies 1 True) trio_melodies 8 =
     ([], Inl (SequenceGeneratorException (MelodiesCount 3)))"
  by (simp add: run_defs)

text \<open>
  C3, as stated, fails: a call from whose input exactly one melody is extracted still fails
  when the converted start step is below \<open>predictahead_steps\<close>. Here the start time of a
  quarter of a second is step 2 and the model needs 4 steps.
\<close>

theorem one_melody_fallback_counterexample:
  "the_melodies (stub solo_melodies 4 True) solo (request (1 / 4) 2) =
     [Melody [60, - 2, - 2, - 2] 0] \<and>
   generate (stub solo_melodies 4 True) solo (request (1 / 4) 2) =
     ([FromNoteSequence 4, ExtractMelodies],
      Inl (SequenceGeneratorException (BeforePredictahead 4 2)))"
  by (simp add: run_defs obs_defs)

text \<open>
  C3, amended. When exactly one melody is extracted and the converted start step is at
  least \<open>predictahead_steps\<close>, the call raises no error of its own: it logs a warning,
  draws one pitch with \<^verbatim>\<open>random.randint(16, 54)\<close> and makes up an accompaniment that
  starts at the main melody's start step and consists of \<open>start_step - main.start_step\<close>
  no-event markers (none if that difference is negative) followed by the drawn pitch. The
  start step is then incremented by 1: the accompaniment is set to the length
  \<open>start_step + 1 - main.start_step\<close> and the model is asked for
  \<open>end_step - (start_step + 1)\<close> steps. The call returns the merged sequence unless the
  model itself raises.
\<close>

theorem one_melody_fallback:
  assumes "reaches_conversion env s opts"
    and "the_melodies env s opts = [main_melody]"
    and "predictahead_steps env \<le> the_start_step env s opts"
  shows "let start_step0 = the_start_step env s opts;
             accompaniment0 =
               Melody (replicate (nat (start_step0 - start_step main_melody))
                         (MELODY_NO_EVENT env) @ [randint env 16 54])
                      (start_step main_melody);
             start_step1 = start_step0 + 1;
             accompaniment =
               set_length env accompaniment0 (start_step1 - start_step accompaniment0);
             n = the_end_step env s opts - start_step1;
             lg = checked_log env s opts @
               [LoggingWarn, RandomRandint 16 54,
                SetLength accompaniment0 (start_step1 - start_step main_melody),
                GenerateMelodyPair n main_melody accompaniment (the_temperature opts)]
         in generate env s opts =
              (case generate_melody_pair env n (main_melody, accompaniment)
                      (the_temperature opts) of
                 Inl x \<Rightarrow> (lg, Inl (ModelError x))
               | Inr generated_pair \<Rightarrow>
                   (lg @ [ToSequence (fst generated_pair) 0 (the_qpm env s opts),
                          ToSequence (snd generated_pair) 1 (the_qpm env s opts)],
                    Inr (merged env generated_pair (the_qpm env s opts))))"
  unfolding generate_one_melody [OF assms(1) assms(3) assms(2)]
  by (simp add: invoke_model_def merged_def fabricated_def Let_def split: sum.splits)

theorem one_melody_fallback_witness:
  "reaches_conversion (stub solo_melodies 8 True) solo (request 1 2) \<and>
   the_melodies (stub solo_melodies 8 True) solo (request 1 2) = [Melody [60, - 2, - 2, - 2] 0] \<and>
   predictahead_steps (stub solo_melodies 8 True)
     \<le> the_start_step (stub solo_melodies 8 True) solo (request 1 2) \<and>
   fst (generate (stub solo_melodies 8 True) solo (request 1 2)) =
     [FromNoteSequence 4, ExtractMelodies, LoggingWarn, RandomRandint 16 54,
      SetLength (Melody [- 2, - 2, - 2, - 2, - 2, - 2, - 2, - 2, 16] 0) 9,
      GenerateMelodyPair 7 (Melody [60, - 2, - 2, - 2] 0)
        (Melody [- 2, - 2, - 2, - 2, - 2, - 2, - 2, - 2, 16] 0) 1,
      ToSequence (Melody [60, - 2, - 2, - 2] 0) 0 120,
      ToSequence (Melody [- 2, - 2, - 2, - 2, - 2, - 2, - 2, - 2, 16] 0) 1 120]"
proof -
  have r: "reaches_conversion (stub solo_melodies 8 True) solo (request 1 2)"
    by (simp add: obs_defs step_defs stub_defs)
  have m: "the_melodies (stub solo_melodies 8 True) solo (request 1 2) =
      [Melody [60, - 2, - 2, - 2] 0]"
    by (simp add: obs_defs step_defs stub_defs)
  have p: "predictahead_steps (stub solo_melodies 8 True)
     \<le> the_start_step (stub solo_melodies 8 True) solo (request 1 2)"
    by (simp add: obs_defs step_defs stub_defs)
  have eight: "replicate 8 (- 2 :: int) = [- 2, - 2, - 2, - 2, - 2, - 2, - 2, - 2]"
    by (simp add: numeral_eq_Suc)
  have "fst (generate (stub solo_melodies 8 True) solo (request 1 2)) =
     [FromNoteSequence 4, ExtractMelodies, LoggingWarn, RandomRandint 16 54,
      SetLength (Melody [- 2, - 2, - 2, - 2, - 2, - 2, - 2, - 2, 16] 0) 9,
      GenerateMelodyPair 7 (Melody [60, - 2, - 2, - 2] 0)
        (Melody [- 2, - 2, - 2, - 2, - 2, - 2, - 2, - 2, 16] 0) 1,
      ToSequence (Melody [60, - 2, - 2, - 2] 0) 0 120,
      ToSequence (Melody [- 2, - 2, - 2, - 2, - 2, - 2, - 2, - 2, 16] 0) 1 120]"
    using one_melody_fallback [OF r m p]
    by (simp add: obs_defs step_defs stub_defs eight)
  with r m p show ?thesis by simp
qed

section \<open>The outcomes of a call\<close>

lemma generate_cases [case_names bad_sections late assertion predictahead one two]:
  obtains "\<not> sections_ok opts"
      "generate env s opts =
         ([], Inl (SequenceGeneratorException
            (if 1 < length (input_sections opts)
             then InputSectionsCount (length (input_sections opts))
             else GenerateSectionsCount (length (generate_sections opts)))))"
  | "sections_ok opts"
      "section_start_time (generate_sections opts ! 0)
         < accompaniment_end_time (the_input env s opts)"
      "generate env s opts =
         (fst (limit_input env s opts),
          Inl (SequenceGeneratorException
            (BeforeAccompanimentEnd (section_start_time (generate_sections opts ! 0))
               (accompaniment_end_time (the_input env s opts)))))"
  | "sections_ok opts"
      "accompaniment_end_time (the_input env s opts)
         \<le> section_start_time (generate_sections opts ! 0)"
      "\<not> (1 \<le> length (the_melodies env s opts) \<and> length (the_melodies env s opts) \<le> 2)"
      "generate env s opts = (checked_log env s opts, Inl AssertionError)"
  | "reaches_conversion env s opts"
      "the_start_step env s opts < predictahead_steps env"
      "generate env s opts =
         (checked_log env s opts,
          Inl (SequenceGeneratorException
            (BeforePredictahead (predictahead_steps env) (the_start_step env s opts))))"
  | m where "reaches_conversion env s opts"
      "predictahead_steps env \<le> the_start_step env s opts"
      "the_melodies env s opts = [m]"
      "generate env s opts =
         invoke_model env (checked_log env s opts @ [LoggingWarn, RandomRandint 16 54])
           (the_qpm env s opts) (the_temperature opts) (the_end_step env s opts) m
           (fabricated env m (the_start_step env s opts)) (the_start_step env s opts + 1)"
  | m a where "reaches_conversion env s opts"
      "predictahead_steps env \<le> the_start_step env s opts"
      "the_melodies env s opts = [m, a]"
      "generate env s opts =
         invoke_model env (checked_log env s opts) (the_qpm env s opts) (the_temperature opts)
           (the_end_step env s opts) m a (the_start_step env s opts)"
proof (cases "sections_ok opts")
  case False
  with generate_bad_sections [OF False] that(1) show ?thesis by blast
next
  case ok: True
  show ?thesis
  proof (cases "section_start_time (generate_sections opts ! 0)
                  < accompaniment_end_time (the_input env s opts)")
    case True
    with generate_accompaniment_late [OF ok True] ok that(2) show ?thesis by blast
  next
    case False
    then have early: "accompaniment_end_time (the_input env s opts)
        \<le> section_start_time (generate_sections opts ! 0)" by simp
    show ?thesis
    proof (cases "1 \<le> length (the_melodies env s opts) \<and>
                  length (the_melodies env s opts) \<le> 2")
      case count: False
      with generate_assertion [OF ok early count] ok early that(3) show ?thesis by blast
    next
      case count: True
      with ok early have r: "reaches_conversion env s opts"
        by (simp add: reaches_conversion_def)
      show ?thesis
      proof (cases "the_start_step env s opts < predictahead_steps env")
        case True
        with generate_predictahead [OF r True] r that(4) show ?thesis by blast
      next
        case False
        then have p: "predictahead_steps env \<le> the_start_step env s opts" by simp
        from r show ?thesis
        proof (cases rule: reaches_conversion_cases)
          case (1 m)
          with generate_one_melody [OF r p 1] r p that(5) show ?thesis by blast
        next
          case (2 m a)
          with generate_two_melodies [OF r p 2] r p that(6) show ?thesis by blast
        qed
      qed
    qed
  qed
qed


lemma merged_instruments:
  "tags_instrument env \<Longrightarrow>
   \<forall>x \<in> set (seq_notes (merged env gp q)). instrument x = 0 \<or> instrument x = 1"
  by (auto simp add: tags_instrument_def merged_def)

lemma invoke_model_returns:
  assumes "snd (invoke_model env lg q t e m a st) = Inr out"
  shows "\<exists>gp. generate_melody_pair env (e - st) (m, set_length env a (st - start_step a)) t = Inr gp \<and>
      out = merged env gp q \<and>
      fst (invoke_model env lg q t e m a st) =
        (lg @ [SetLength a (st - start_step a)]) @
        [GenerateMelodyPair (e - st) m (set_length env a (st - start_step a)) t,
         ToSequence (fst gp) 0 q, ToSequence (snd gp) 1 q]"
  using assms by (auto simp add: invoke_model_result invoke_model_log split: sum.splits)

text \<open>
  C1. Whenever the call succeeds, the model was asked for a pair and returned one; the
  last two calls convert its first melody with instrument 0 and its second melody with
  instrument 1, both with the resolved qpm; and the sequence returned is the first of
  these sequences with the notes of the second appended to its notes. If the library's
  \<^verbatim>\<open>to_sequence\<close> gives its notes the instrument it is passed, every note returned has
  instrument 0 or 1.
\<close>

theorem returned_sequence_merged:
  assumes "snd (generate env s opts) = Inr out"
  shows "\<exists>n main_melody accompaniment generated_pair pre.
      fst (generate env s opts) =
        pre @ [GenerateMelodyPair n main_melody accompaniment (the_temperature opts),
               ToSequence (fst generated_pair) 0 (the_qpm env s opts),
               ToSequence (snd generated_pair) 1 (the_qpm env s opts)] \<and>
      generate_melody_pair env n (main_melody, accompaniment) (the_temperature opts) =
        Inr generated_pair \<and>
      out = (to_sequence env (fst generated_pair) 0 (the_qpm env s opts))
              \<lparr>seq_notes :=
                 seq_notes (to_sequence env (fst generated_pair) 0 (the_qpm env s opts)) @
                 seq_notes (to_sequence env (snd generated_pair) 1 (the_qpm env s opts))\<rparr> \<and>
      (tags_instrument env \<longrightarrow>
         (\<forall>x \<in> set (seq_notes out). instrument x = 0 \<or> instrument x = 1))"
proof (cases rule: generate_cases [of opts env s])
  case bad_sections
  with assms show ?thesis by simp
next
  case late
  with assms show ?thesis by simp
next
  case assertion
  with assms show ?thesis by simp
next
  case predictahead
  with assms show ?thesis by simp
next
  case (one m)
  from assms one(4) invoke_model_returns obtain gp where
    "generate_melody_pair env (the_end_step env s opts - (the_start_step env s opts + 1))
       (m, set_length env (fabricated env m (the_start_step env s opts))
             (the_start_step env s opts + 1 - start_step (fabricated env m (the_start_step env s opts))))
       (the_temperature opts) = Inr gp"
    "out = merged env gp (the_qpm env s opts)"
    "fst (generate env s opts) =
       ((checked_log env s opts @ [LoggingWarn, RandomRandint 16 54]) @
        [SetLength (fabricated env m (the_start_step env s opts))
           (the_start_step env s opts + 1 - start_step (fabricated env m (the_start_step env s opts)))]) @
       [GenerateMelodyPair (the_end_step env s opts - (the_start_step env s opts + 1)) m
          (set_length env (fabricated env m (the_start_step env s opts))
             (the_start_step env s opts + 1 - start_step (fabricated env m (the_start_step env s opts))))
          (the_temperature opts),
        ToSequence (fst gp) 0 (the_qpm env s opts), ToSequence (snd gp) 1 (the_qpm env s opts)]"
    by metis
  with merged_instruments [of env gp "the_qpm env s opts"] show ?thesis
    unfolding merged_def by blast
next
  case (two m a)
  from assms two(4) invoke_model_returns obtain gp where
    "generate_melody_pair env (the_end_step env s opts - the_start_step env s opts)
       (m, set_length env a (the_start_step env s opts - start_step a))
       (the_temperature opts) = Inr gp"
    "out = merged env gp (the_qpm env s opts)"
    "fst (generate env s opts) =
       (checked_log env s opts @
        [SetLength a (the_start_step env s opts - start_step a)]) @
       [GenerateMelodyPair (the_end_step env s opts - the_start_step env s opts) m
          (set_length env a (the_start_step env s opts - start_step a))
          (the_temperature opts),
        ToSequence (fst gp) 0 (the_qpm env s opts), ToSequence (snd gp) 1 (the_qpm env s opts)]"
    by metis
  with merged_instruments [of env gp "the_qpm env s opts"] show ?thesis
    unfolding merged_def by blast
qed

theorem returned_sequence_merged_witness:
  "snd (generate (stub duet_melodies 8 True) duet (request 1 2)) =
     Inr \<lparr>seq_notes = [\<lparr>instrument = 0, pitch = 60, start_time = 0, end_time = 0\<rparr>,
                       \<lparr>instrument = 1, pitch = 48, start_time = 0, end_time = 0\<rparr>],
          tempos = [\<lparr>qpm = 120\<rparr>]\<rparr> \<and>
   tags_instrument (stub duet_melodies 8 True) \<and>
   list_all (\<lambda>x. instrument x = 0 \<or> instrument x = 1)
     [\<lparr>instrument = 0, pitch = 60, start_time = 0, end_time = 0\<rparr>,
      \<lparr>instrument = 1, pitch = 48, start_time = 0, end_time = 0\<rparr>]"
proof -
  let ?out = "\<lparr>seq_notes = [\<lparr>instrument = 0, pitch = 60, start_time = 0, end_time = 0\<rparr>,
                       \<lparr>instrument = 1, pitch = 48, start_time = 0, end_time = 0\<rparr>],
          tempos = [\<lparr>qpm = 120\<rparr>]\<rparr>"
  have r: "snd (generate (stub duet_melodies 8 True) duet (request 1 2)) = Inr ?out"
    by (simp add: run_defs)
  have t: "tags_instrument (stub duet_melodies 8 True)"
    by (auto simp add: tags_instrument_def stub_def stub_to_sequence_def)
  from returned_sequence_merged [OF r] t
  have "\<forall>x \<in> set (seq_notes ?out). instrument x = 0 \<or> instrument x = 1"
    by blast
  then have "list_all (\<lambda>x. instrument x = 0 \<or> instrument x = 1)
     [\<lparr>instrument = 0, pitch = 60, start_time = 0, end_time = 0\<rparr>,
      \<lparr>instrument = 1, pitch = 48, start_time = 0, end_time = 0\<rparr>]"
    by simp
  with r t show ?thesis by blast
qed

section \<open>The steps asked of the model\<close>

lemma requested_steps_invoke_model:
  "requested_steps (fst (invoke_model env lg q t e m a st)) = requested_steps lg @ [e - st]"
  by (simp add: invoke_model_log requested_steps_append split: sum.splits)

lemma the_input_extract_melodies:
  "the_input (env\<lparr>extract_melodies := f\<rparr>) s opts = the_input env s opts"
  by (simp add: the_input_def limit_input_def Let_def)

lemma the_qpm_extract_melodies:
  "the_qpm (env\<lparr>extract_melodies := f\<rparr>) s opts = the_qpm env s opts"
  by (simp add: the_qpm_def the_input_extract_melodies resolved_qpm_def split: list.splits)

lemma the_steps_extract_melodies:
  "the_start_step (env\<lparr>extract_melodies := f\<rparr>) s opts = the_start_step env s opts"
  "the_end_step (env\<lparr>extract_melodies := f\<rparr>) s opts = the_end_step env s opts"
  by (simp_all add: the_start_step_def the_end_step_def the_qpm_extract_melodies)

lemma the_melodies_extract_melodies:
  "the_melodies (env\<lparr>extract_melodies := f\<rparr>) s opts =
     f (from_note_sequence env (the_input env s opts) STEPS_PER_QUARTER)"
  by (simp add: the_melodies_def the_input_extract_melodies)


text \<open>
  C10. For a call that reaches the conversion, the model is asked for
  \<open>end_step - (start_step + 1)\<close> steps when one melody is extracted, one step fewer than
  the \<open>end_step - start_step\<close> it is asked for when two melodies are extracted, also
  when the same call is made with a library that extracts two melodies. In both cases the
  model is called exactly when the converted start step is not below
  \<open>predictahead_steps\<close>: the incremented start step is not checked again.
\<close>

theorem fallback_requests_one_step_fewer:
  assumes "reaches_conversion env s opts"
  shows "(length (the_melodies env s opts) = 1 \<longrightarrow>
            requested_steps (fst (generate env s opts)) =
              (if the_start_step env s opts < predictahead_steps env then []
               else [the_end_step env s opts - (the_start_step env s opts + 1)]) \<and>
            requested_steps
                (fst (generate (env\<lparr>extract_melodies := (\<lambda>u. [main_melody, accompaniment])\<rparr>)
                   s opts)) =
              (if the_start_step env s opts < predictahead_steps env then []
               else [the_end_step env s opts - the_start_step env s opts])) \<and>
         (length (the_melodies env s opts) = 2 \<longrightarrow>
            requested_steps (fst (generate env s opts)) =
              (if the_start_step env s opts < predictahead_steps env then []
               else [the_end_step env s opts - the_start_step env s opts]))"
proof -
  have general: "(length (the_melodies e s opts) = 1 \<longrightarrow>
            requested_steps (fst (generate e s opts)) =
              (if the_start_step e s opts < predictahead_steps e then []
               else [the_end_step e s opts - (the_start_step e s opts + 1)])) \<and>
         (length (the_melodies e s opts) = 2 \<longrightarrow>
            requested_steps (fst (generate e s opts)) =
              (if the_start_step e s opts < predictahead_steps e then []
               else [the_end_step e s opts - the_start_step e s opts]))"
    if r: "reaches_conversion e s opts" for e :: "'a environment"
  proof (cases rule: generate_cases [of opts e s])
    case bad_sections
    with r show ?thesis by (simp add: reaches_conversion_def)
  next
    case late
    with r show ?thesis by (simp add: reaches_conversion_def)
  next
    case assertion
    with r show ?thesis by (simp add: reaches_conversion_def)
  next
    case predictahead
    then show ?thesis by (simp add: requested_steps_checked_log)
  next
    case (one m)
    then show ?thesis
      by (simp add: requested_steps_invoke_model requested_steps_append
          requested_steps_checked_log)
  next
    case (two m a)
    then show ?thesis
      by (simp add: requested_steps_invoke_model requested_steps_checked_log)
  qed
  let ?env = "env\<lparr>extract_melodies := (\<lambda>u. [main_melody, accompaniment])\<rparr>"
  from assms have "reaches_conversion ?env s opts"
    by (simp add: reaches_conversion_def the_input_extract_melodies
        the_melodies_extract_melodies)
  from general [OF this] have two: "requested_steps (fst (generate ?env s opts)) =
              (if the_start_step env s opts < predictahead_steps env then []
               else [the_end_step env s opts - the_start_step env s opts])"
    by (simp add: the_steps_extract_melodies the_melodies_extract_melodies)
  from general [OF assms] two show ?thesis by simp
qed


theorem fallback_requests_one_step_fewer_witness:
  "reaches_conversion (stub solo_melodies 8 True) solo (request 1 2) \<and>
   length (the_melodies (stub solo_melodies 8 True) solo (request 1 2)) = 1 \<and>
   requested_steps (fst (generate (stub solo_melodies 8 True) solo (request 1 2))) = [7] \<and>
   requested_steps (fst (generate ((stub solo_melodies 8 True)
      \<lparr>extract_melodies := (\<lambda>u. [Melody [60, - 2, - 2, - 2] 0, Melody [48, - 2, - 2, - 2] 0])\<rparr>)
      solo (request 1 2))) = [8]"
proof -
  have r: "reaches_conversion (stub solo_melodies 8 True) solo (request 1 2)"
    by (simp add: obs_defs step_defs stub_defs)
  have l: "length (the_melodies (stub solo_melodies 8 True) solo (request 1 2)) = 1"
    by (simp add: obs_defs step_defs stub_defs)
  have st: "the_start_step (stub solo_melodies 8 True) solo (request 1 2) = 8"
    "the_end_step (stub solo_melodies 8 True) solo (request 1 2) = 16"
    by (simp_all add: obs_defs step_defs stub_defs)
  have p: "predictahead_steps (stub solo_melodies 8 True) = 8"
    by (simp add: stub_def)
  note w = fallback_requests_one_step_fewer [OF r, of "Melody [60, - 2, - 2, - 2] 0"
      "Melody [48, - 2, - 2, - 2] 0"]
  from w l have "requested_steps (fst (generate (stub solo_melodies 8 True) solo (request 1 2))) =
      (if the_start_step (stub solo_melodies 8 True) solo (request 1 2)
            < predictahead_steps (stub solo_melodies 8 True) then []
       else [the_end_step (stub solo_melodies 8 True) solo (request 1 2) -
             (the_start_step (stub solo_melodies 8 True) solo (request 1 2) + 1)])"
    by blast
  then have one: "requested_steps (fst (generate (stub solo_melodies 8 True) solo (request 1 2))) = [7]"
    unfolding st p by simp
  from w l have "requested_steps (fst (generate ((stub solo_melodies 8 True)
      \<lparr>extract_melodies := (\<lambda>u. [Melody [60, - 2, - 2, - 2] 0, Melody [48, - 2, - 2, - 2] 0])\<rparr>)
      solo (request 1 2))) =
      (if the_start_step (stub solo_melodies 8 True) solo (request 1 2)
            < predictahead_steps (stub solo_melodies 8 True) then []
       else [the_end_step (stub solo_melodies 8 True) solo (request 1 2) -
             the_start_step (stub solo_melodies 8 True) solo (request 1 2)])"
    by blast
  then have two: "requested_steps (fst (generate ((stub solo_melodies 8 True)
      \<lparr>extract_melodies := (\<lambda>u. [Melody [60, - 2, - 2, - 2] 0, Melody [48, - 2, - 2, - 2] 0])\<rparr>)
      solo (request 1 2))) = [8]"
    unfolding st p by simp
  from r l one two show ?thesis by blast
qed

section \<open>The primer handed to the model\<close>







end
